theory Spec2Isabelle
  imports Main "HOL-Library.AList"
begin

section \<open>JavaScript strings\<close>

text \<open>
  A JavaScript string is a sequence of UTF-16 code units. The model uses \<^typ>\<open>string\<close>,
  one \<^typ>\<open>char\<close> per code unit, so it covers the strings whose code units are
  U+0000 .. U+00FF. In that range the white space of \<^verbatim>\<open>String.prototype.trim\<close> and of
  the regular expression class \<^verbatim>\<open>\s\<close> is TAB, LF, VT, FF, CR, SPACE and NBSP.
\<close>

definition is_space :: "char \<Rightarrow> bool" where
  "is_space c = (c \<in> set [CHR 0x09, CHR 0x0A, CHR 0x0B, CHR 0x0C, CHR 0x0D, CHR 0x20, CHR 0xA0])"

definition trim :: "string \<Rightarrow> string" where
  "trim s = rev (dropWhile is_space (rev (dropWhile is_space s)))"

text \<open>\<^verbatim>\<open>s.split(c)\<close> for a one-character separator: never the empty array.\<close>

fun split_acc :: "char \<Rightarrow> string \<Rightarrow> string \<Rightarrow> string list" where
  "split_acc c acc [] = [rev acc]"
| "split_acc c acc (x # xs) =
     (if x = c then rev acc # split_acc c [] xs else split_acc c (x # acc) xs)"

definition split :: "char \<Rightarrow> string \<Rightarrow> string list" where
  "split c s = split_acc c [] s"

text \<open>
  \<^verbatim>\<open>toLowerCase\<close> on the code units of the model: A-Z and the Latin-1 capitals
  U+00C0 .. U+00DE (without the multiplication sign U+00D7) move up by 32.
\<close>

definition lower_char :: "char \<Rightarrow> char" where
  "lower_char c =
     (let n = (of_char c :: nat)
      in if (65 \<le> n \<and> n \<le> 90) \<or> (192 \<le> n \<and> n \<le> 222 \<and> n \<noteq> 215)
         then char_of (n + 32) else c)"

definition toLowerCase :: "string \<Rightarrow> string" where
  "toLowerCase s = map lower_char s"

section \<open>Contact form: field validation\<close>

text \<open>
  The four keys of the \<^verbatim>\<open>validators\<close> object, in the order \<^verbatim>\<open>Object.keys\<close> lists them.
  Every caller of \<^verbatim>\<open>validateField\<close> passes one of these keys.
\<close>

datatype field_name = Name | Email | Subject | Message

definition field_names :: "field_name list" where
  "field_names = [Name, Email, Subject, Message]"

text \<open>
  The regular expression \<^verbatim>\<open>/^[^\s@]+@[^\s@]+\.[^\s@]+$/\<close>: the string is
  \<open>a @ b . c\<close> with \<open>a\<close>, \<open>b\<close>, \<open>c\<close> non-empty and free of white space and of
  \<open>@\<close>. So there is exactly one \<open>@\<close>, no white space, a non-empty local part, and the
  part after the \<open>@\<close> has a dot that is neither its first nor its last character.
\<close>

definition email_char :: "char \<Rightarrow> bool" where
  "email_char c = (\<not> is_space c \<and> c \<noteq> CHR ''@'')"

definition emailRegex_test :: "string \<Rightarrow> bool" where
  "emailRegex_test s =
     (let a = takeWhile (\<lambda>c. c \<noteq> CHR ''@'') s;
          r = dropWhile (\<lambda>c. c \<noteq> CHR ''@'') s
      in case r of
           [] \<Rightarrow> False
         | _ # d \<Rightarrow> a \<noteq> [] \<and> list_all email_char a \<and> list_all email_char d
                    \<and> CHR ''.'' \<in> set (butlast (tl d)))"

text \<open>
  A validator takes the field's value and returns \<open>None\<close> for JavaScript's \<^verbatim>\<open>null\<close>
  (no error) or the error message. \<^verbatim>\<open>!value\<close> holds of the empty string.
\<close>

definition validate_name :: "string \<Rightarrow> string option" where
  "validate_name v =
     (if v = [] \<or> length (trim v) < 4 then Some ''Please enter at least 4 characters''
      else None)"

definition validate_email :: "string \<Rightarrow> string option" where
  "validate_email v =
     (if v = [] \<or> \<not> emailRegex_test v then Some ''Please enter a valid email address''
      else None)"

definition validate_subject :: "string \<Rightarrow> string option" where
  "validate_subject v =
     (if v = [] \<or> length (trim v) < 4 then Some ''Please enter at least 4 characters''
      else None)"

definition validate_message :: "string \<Rightarrow> string option" where
  "validate_message v =
     (if v = [] \<or> length (trim v) < 10 then Some ''Please write at least 10 characters''
      else None)"

fun validators :: "field_name \<Rightarrow> string \<Rightarrow> string option" where
  "validators Name = validate_name"
| "validators Email = validate_email"
| "validators Subject = validate_subject"
| "validators Message = validate_message"

definition validateField :: "field_name \<Rightarrow> string \<Rightarrow> string option" where
  "validateField fieldName v = validators fieldName v"

text \<open>The form input record built by the submit handler: four strings.\<close>

record form_data =
  fd_name :: string
  fd_email :: string
  fd_subject :: string
  fd_message :: string

fun field_of :: "form_data \<Rightarrow> field_name \<Rightarrow> string" where
  "field_of fd Name = fd_name fd"
| "field_of fd Email = fd_email fd"
| "field_of fd Subject = fd_subject fd"
| "field_of fd Message = fd_message fd"

text \<open>
  \<^verbatim>\<open>validateForm\<close>: the loop over the keys, carrying \<^verbatim>\<open>isValid\<close> and \<^verbatim>\<open>errors\<close>.
  \<^verbatim>\<open>if (error)\<close> is a truthiness test: \<^verbatim>\<open>null\<close> and the empty string are falsy.
\<close>

record validation =
  isValid :: bool
  errors :: "field_name \<rightharpoonup> string"

definition validate_step :: "form_data \<Rightarrow> validation \<Rightarrow> field_name \<Rightarrow> validation" where
  "validate_step fd acc field =
     (case validateField field (field_of fd field) of
        None \<Rightarrow> acc
      | Some e \<Rightarrow>
          if e \<noteq> [] then acc\<lparr>errors := (errors acc)(field \<mapsto> e), isValid := False\<rparr>
          else acc)"

definition validateForm :: "form_data \<Rightarrow> validation" where
  "validateForm fd =
     foldl (validate_step fd) \<lparr>isValid = True, errors = Map.empty\<rparr> field_names"

section \<open>JavaScript values\<close>

text \<open>
  The values a translation dictionary holds and the lookup returns: the JSON values that
  \<^verbatim>\<open>response.json()\<close> produces, \<^verbatim>\<open>undefined\<close>, and \<open>JHost\<close> for a value that
  the host supplies (a built-in function or object found on a prototype), carrying the
  text the host renders it as. Numbers are the integers (what \<^verbatim>\<open>length\<close> yields and
  what a dictionary may hold without floating point). An object is the list of its own
  properties; a read takes the first entry of a key.
\<close>

datatype jsval =
    JUndefined
  | JNull
  | JBool bool
  | JNum int
  | JStr string
  | JArr "jsval list"
  | JObj "(string \<times> jsval) list"
  | JHost string

fun truthy :: "jsval \<Rightarrow> bool" where
  "truthy JUndefined = False"
| "truthy JNull = False"
| "truthy (JBool b) = b"
| "truthy (JNum n) = (n \<noteq> 0)"
| "truthy (JStr s) = (s \<noteq> [])"
| "truthy (JArr xs) = True"
| "truthy (JObj kvs) = True"
| "truthy (JHost h) = True"

text \<open>
  A property key that is an index: \<open>0\<close>, or decimal digits without a leading zero.
\<close>

definition is_digit :: "char \<Rightarrow> bool" where
  "is_digit c = (c \<in> set ''0123456789'')"

definition digit_val :: "char \<Rightarrow> nat" where
  "digit_val c = of_char c - 48"

definition array_index :: "string \<Rightarrow> nat option" where
  "array_index k =
     (if k \<noteq> [] \<and> list_all is_digit k \<and> (k = ''0'' \<or> hd k \<noteq> CHR ''0'')
      then Some (foldl (\<lambda>n c. 10 * n + digit_val c) 0 k) else None)"

text \<open>
  The own properties of a value: the entries of an object, the elements and the
  \<^verbatim>\<open>length\<close> of an array, the code units and the \<^verbatim>\<open>length\<close> of a string. Numbers
  and booleans have none.
\<close>

fun own_property :: "jsval \<Rightarrow> string \<Rightarrow> jsval option" where
  "own_property (JObj kvs) k = map_of kvs k"
| "own_property (JArr xs) k =
     (if k = ''length'' then Some (JNum (int (length xs)))
      else case array_index k of
             None \<Rightarrow> None
           | Some i \<Rightarrow> if i < length xs then Some (xs ! i) else None)"
| "own_property (JStr s) k =
     (if k = ''length'' then Some (JNum (int (length s)))
      else case array_index k of
             None \<Rightarrow> None
           | Some i \<Rightarrow> if i < length s then Some (JStr [s ! i]) else None)"
| "own_property v k = None"

text \<open>
  A property read \<^verbatim>\<open>v[k]\<close> of a value that is neither \<^verbatim>\<open>undefined\<close> nor \<^verbatim>\<open>null\<close>
  (every read of the source is behind a truthiness test of \<open>v\<close>): the own property if
  there is one, else what the prototype chain of the host yields, \<^verbatim>\<open>undefined\<close> when it
  has no such property. The prototype chain belongs to the host, so it is a parameter.
\<close>

type_synonym proto = "jsval \<Rightarrow> string \<Rightarrow> jsval"

definition getProp :: "proto \<Rightarrow> jsval \<Rightarrow> string \<Rightarrow> jsval" where
  "getProp proto v k = (case own_property v k of Some x \<Rightarrow> x | None \<Rightarrow> proto v k)"

text \<open>\<^verbatim>\<open>ToString\<close>, applied by the DOM to what is assigned to a text property.\<close>

fun show_nat :: "nat \<Rightarrow> string" where
  "show_nat n =
     (if n < 10 then [char_of (48 + n)] else show_nat (n div 10) @ [char_of (48 + n mod 10)])"

definition show_int :: "int \<Rightarrow> string" where
  "show_int i = (if i < 0 then CHR ''-'' # show_nat (nat (- i)) else show_nat (nat i))"

fun join :: "string \<Rightarrow> string list \<Rightarrow> string" where
  "join sep [] = []"
| "join sep [x] = x"
| "join sep (x # y # ys) = x @ sep @ join sep (y # ys)"

fun ToString :: "jsval \<Rightarrow> string" where
  "ToString JUndefined = ''undefined''"
| "ToString JNull = ''null''"
| "ToString (JBool b) = (if b then ''true'' else ''false'')"
| "ToString (JNum n) = show_int n"
| "ToString (JStr s) = s"
| "ToString (JArr xs) =
     join '','' (map (\<lambda>x. if x = JUndefined \<or> x = JNull then [] else ToString x) xs)"
| "ToString (JObj kvs) = ''[object Object]''"
| "ToString (JHost h) = h"

section \<open>The i18n module\<close>

datatype level = LOG | WARN | ERROR

type_synonym log_entry = "level \<times> string \<times> jsval list"

text \<open>An element that carries a \<^verbatim>\<open>data-i18n\<close> attribute.\<close>

record element =
  tagName :: string
  data_i18n :: string
  placeholder :: "string option"
  textContent :: string

text \<open>
  A call of \<^verbatim>\<open>loadLanguage\<close> is followed by one of three \<^verbatim>\<open>then\<close> callbacks (of
  \<^verbatim>\<open>init\<close>, of the fallback inside \<^verbatim>\<open>init\<close>'s \<^verbatim>\<open>catch\<close>, of \<^verbatim>\<open>setLanguage\<close>) or by
  none.
\<close>

datatype cont = InitThen | FallbackThen | SetLanguageThen | NoCont

text \<open>
  The state the module reads and writes: the fields of the \<^verbatim>\<open>i18n\<close> object, the browser
  (\<^verbatim>\<open>localStorage\<close>, \<^verbatim>\<open>navigator\<close>, the console), the document (title, the
  \<^verbatim>\<open>lang\<close> attribute of the root, the elements with a \<^verbatim>\<open>data-i18n\<close> attribute in
  document order, the value of \<^verbatim>\<open>#languageSelect\<close> if that element exists, the number of
  change listeners installed on it) and the fetches in flight with their callback.
  The model is of browsers whose \<^verbatim>\<open>localStorage\<close> can be read and written.
\<close>

record i18n_state =
  currentLanguage :: string
  translations_cache :: "(string \<times> jsval) list"
  localStorage :: "(string \<times> string) list"
  nav_language :: "string option"
  nav_userLanguage :: "string option"
  console :: "log_entry list"
  title :: string
  html_lang :: string
  elements :: "element list"
  languageSelect :: "string option"
  listeners :: nat
  pending :: "(string \<times> cont) list"

definition availableLanguages :: "string list" where
  "availableLanguages = [''en'', ''es'', ''fr'', ''de'', ''pt'']"

definition defaultLanguage :: string where
  "defaultLanguage = ''en''"

definition log :: "level \<Rightarrow> string \<Rightarrow> jsval list \<Rightarrow> i18n_state \<Rightarrow> i18n_state" where
  "log l msg args st = st\<lparr>console := console st @ [(l, msg, args)]\<rparr>"

text \<open>\<^verbatim>\<open>navigator.language || navigator.userLanguage || 'en'\<close>, lower-cased.\<close>

definition browserLang :: "i18n_state \<Rightarrow> string" where
  "browserLang st =
     toLowerCase
       (case nav_language st of
          Some l \<Rightarrow> if l \<noteq> [] then l
                    else (case nav_userLanguage st of
                            Some u \<Rightarrow> if u \<noteq> [] then u else ''en''
                          | None \<Rightarrow> ''en'')
        | None \<Rightarrow> (case nav_userLanguage st of
                     Some u \<Rightarrow> if u \<noteq> [] then u else ''en''
                   | None \<Rightarrow> ''en''))"

text \<open>\<^verbatim>\<open>browserLang.split('-')[0]\<close>; reading index 0 of an empty array is \<^verbatim>\<open>undefined\<close>.\<close>

definition langCode :: "string \<Rightarrow> string option" where
  "langCode b = (case split CHR ''-'' b of [] \<Rightarrow> None | x # xs \<Rightarrow> Some x)"

definition detectLanguage :: "i18n_state \<Rightarrow> string \<times> i18n_state" where
  "detectLanguage st =
     (case map_of (localStorage st) ''endev_language'' of
        Some savedLang \<Rightarrow>
          if savedLang \<noteq> [] \<and> savedLang \<in> set availableLanguages
          then (savedLang, log LOG ''[i18n] Using saved language preference:'' [JStr savedLang] st)
          else (let st1 = log LOG ''[i18n] Browser language:'' [JStr (browserLang st)] st
                in case langCode (browserLang st) of
                     Some c \<Rightarrow> if c \<in> set availableLanguages then (c, st1)
                               else (defaultLanguage, st1)
                   | None \<Rightarrow> (defaultLanguage, st1))
      | None \<Rightarrow>
          (let st1 = log LOG ''[i18n] Browser language:'' [JStr (browserLang st)] st
           in case langCode (browserLang st) of
                Some c \<Rightarrow> if c \<in> set availableLanguages then (c, st1)
                          else (defaultLanguage, st1)
              | None \<Rightarrow> (defaultLanguage, st1)))"

text \<open>
  \<^verbatim>\<open>translate\<close>: the loop over the segments of the key. \<open>walk\<close> is the loop; it gives
  \<open>None\<close> where the source leaves it through the \<^verbatim>\<open>else\<close> branch.
\<close>

fun walk :: "proto \<Rightarrow> jsval \<Rightarrow> string list \<Rightarrow> jsval option" where
  "walk proto v [] = Some v"
| "walk proto v (k # ks) =
     (if truthy v \<and> truthy (getProp proto v k) then walk proto (getProp proto v k) ks
      else None)"

definition translate :: "proto \<Rightarrow> i18n_state \<Rightarrow> string \<Rightarrow> jsval \<times> i18n_state" where
  "translate proto st key =
     (case walk proto (getProp proto (JObj (translations_cache st)) (currentLanguage st))
             (split CHR ''.'' key) of
        Some v \<Rightarrow> (v, st)
      | None \<Rightarrow> (JStr key, log WARN ''[i18n] Translation not found for key:'' [JStr key] st))"

text \<open>The \<^verbatim>\<open>forEach\<close> of \<^verbatim>\<open>applyTranslations\<close> over the elements.\<close>

definition apply_element :: "jsval \<Rightarrow> element \<Rightarrow> element" where
  "apply_element translation e =
     (if tagName e = ''INPUT'' \<or> tagName e = ''TEXTAREA''
      then (case placeholder e of
              Some old \<Rightarrow> e\<lparr>placeholder := Some (ToString translation)\<rparr>
            | None \<Rightarrow> e)
      else e\<lparr>textContent := ToString translation\<rparr>)"

fun apply_elements :: "proto \<Rightarrow> element list \<Rightarrow> i18n_state \<Rightarrow> element list \<times> i18n_state" where
  "apply_elements proto [] st = ([], st)"
| "apply_elements proto (e # es) st =
     (case translate proto st (data_i18n e) of
        (translation, st1) \<Rightarrow>
          (case apply_elements proto es st1 of
             (es', st2) \<Rightarrow> (apply_element translation e # es', st2)))"

definition applyTranslations :: "proto \<Rightarrow> i18n_state \<Rightarrow> i18n_state" where
  "applyTranslations proto st =
     (let st1 = log LOG ''[i18n] Applying translations...'' [] st
      in case translate proto st1 ''meta.title'' of
           (pageTitle, st2) \<Rightarrow>
             (let st3 = (if truthy pageTitle then st2\<lparr>title := ToString pageTitle\<rparr> else st2);
                  st4 = st3\<lparr>html_lang := currentLanguage st3\<rparr>
              in case apply_elements proto (elements st4) st4 of
                   (es, st5) \<Rightarrow>
                     log LOG ''[i18n] Translations applied to''
                       [JNum (int (length es)), JStr ''elements''] (st5\<lparr>elements := es\<rparr>)))"

definition updateLanguageSelector :: "i18n_state \<Rightarrow> i18n_state" where
  "updateLanguageSelector st =
     (case languageSelect st of
        Some v \<Rightarrow> st\<lparr>languageSelect := Some (currentLanguage st)\<rparr>
      | None \<Rightarrow> st)"

definition setupEventListeners :: "i18n_state \<Rightarrow> i18n_state" where
  "setupEventListeners st =
     (case languageSelect st of
        Some v \<Rightarrow> st\<lparr>listeners := Suc (listeners st)\<rparr>
      | None \<Rightarrow> st)"

text \<open>The \<^verbatim>\<open>then\<close> callbacks, run when the promise of \<^verbatim>\<open>loadLanguage\<close> resolves.\<close>

fun run_then :: "proto \<Rightarrow> cont \<Rightarrow> i18n_state \<Rightarrow> i18n_state" where
  "run_then proto InitThen st =
     log LOG ''[i18n] Initialization complete'' []
       (setupEventListeners (updateLanguageSelector (applyTranslations proto st)))"
| "run_then proto FallbackThen st = applyTranslations proto st"
| "run_then proto SetLanguageThen st = updateLanguageSelector (applyTranslations proto st)"
| "run_then proto NoCont st = st"

text \<open>
  \<^verbatim>\<open>loadLanguage\<close>: a cached dictionary resolves the promise at once; otherwise a fetch
  is started and stays in flight until the browser settles it.
\<close>

definition loadLanguage :: "proto \<Rightarrow> string \<Rightarrow> cont \<Rightarrow> i18n_state \<Rightarrow> i18n_state" where
  "loadLanguage proto lang k st =
     (if truthy (getProp proto (JObj (translations_cache st)) lang)
      then run_then proto k (log LOG ''[i18n] Language already cached:'' [JStr lang] st)
      else (log LOG ''[i18n] Loading language file:'' [JStr lang] st)
             \<lparr>pending := pending st @ [(lang, k)]\<rparr>)"

text \<open>The \<^verbatim>\<open>catch\<close> callbacks: only \<^verbatim>\<open>init\<close> has one.\<close>

fun run_catch :: "proto \<Rightarrow> cont \<Rightarrow> string \<Rightarrow> i18n_state \<Rightarrow> i18n_state" where
  "run_catch proto InitThen err st =
     loadLanguage proto defaultLanguage FallbackThen
       (log ERROR ''[i18n] Failed to initialize:'' [JStr err] st)"
| "run_catch proto k err st = st"

text \<open>
  The browser settles the fetch at position \<open>n\<close> of the fetches in flight: with the
  parsed JSON document, or with an error (the response was not ok, the network failed, or
  the body was not JSON). The document becomes the cache entry of the language code (the
  module itself requests supported codes only).
\<close>

datatype fetch_outcome = Loaded jsval | Failed string

definition fetch_settled :: "proto \<Rightarrow> nat \<Rightarrow> fetch_outcome \<Rightarrow> i18n_state \<Rightarrow> i18n_state" where
  "fetch_settled proto n outcome st =
     (if n < length (pending st)
      then (case pending st ! n of
              (lang, k) \<Rightarrow>
                (let st1 = st\<lparr>pending := take n (pending st) @ drop (Suc n) (pending st)\<rparr>
                 in case outcome of
                      Loaded data \<Rightarrow>
                        run_then proto k
                          (log LOG ''[i18n] Language loaded successfully:'' [JStr lang]
                             (st1\<lparr>translations_cache := AList.update lang data (translations_cache st1)\<rparr>))
                    | Failed err \<Rightarrow>
                        run_catch proto k err
                          (log ERROR ''[i18n] Error loading language file:'' [JStr err] st1)))
      else st)"

definition setLanguage :: "proto \<Rightarrow> string \<Rightarrow> i18n_state \<Rightarrow> i18n_state" where
  "setLanguage proto lang st =
     (if lang \<notin> set availableLanguages
      then log ERROR ''[i18n] Language not supported:'' [JStr lang] st
      else (let st1 = log LOG ''[i18n] Changing language to:'' [JStr lang] st;
                st2 = st1\<lparr>currentLanguage := lang\<rparr>;
                st3 = st2\<lparr>localStorage := AList.update ''endev_language'' lang (localStorage st2)\<rparr>
            in loadLanguage proto lang SetLanguageThen st3))"

definition init :: "proto \<Rightarrow> i18n_state \<Rightarrow> i18n_state" where
  "init proto st =
     (let st1 = log LOG ''[i18n] Initializing internationalization...'' [] st
      in case detectLanguage st1 of
           (detectedLang, st2) \<Rightarrow>
             (let st3 = st2\<lparr>currentLanguage := detectedLang\<rparr>;
                  st4 = log LOG ''[i18n] Detected language:'' [JStr detectedLang] st3
              in loadLanguage proto detectedLang InitThen st4))"

text \<open>
  The user picks the value \<open>v\<close> in \<^verbatim>\<open>#languageSelect\<close>: every installed change listener
  calls \<^verbatim>\<open>setLanguage\<close> with it.
\<close>

definition selector_change :: "proto \<Rightarrow> string \<Rightarrow> i18n_state \<Rightarrow> i18n_state" where
  "selector_change proto v st =
     (case languageSelect st of
        Some old \<Rightarrow> ((setLanguage proto v) ^^ (listeners st)) (st\<lparr>languageSelect := Some v\<rparr>)
      | None \<Rightarrow> st)"

text \<open>
  The module as a transition system: the object literal fixes the fields of a fresh
  \<^verbatim>\<open>i18n\<close> object, and an operation is a call of one of its methods, a change of the
  selector, or the settling of a fetch.
\<close>

definition fresh :: "i18n_state \<Rightarrow> bool" where
  "fresh st = (currentLanguage st = ''en'' \<and> translations_cache st = [] \<and> pending st = []
               \<and> listeners st = 0)"

datatype i18n_op =
    Init
  | DetectLanguage
  | LoadLanguage string
  | Translate string
  | ApplyTranslations
  | SetLanguage string
  | UpdateLanguageSelector
  | SetupEventListeners
  | SelectorChange string
  | FetchSettled nat fetch_outcome

fun exec :: "proto \<Rightarrow> i18n_op \<Rightarrow> i18n_state \<Rightarrow> i18n_state" where
  "exec proto Init st = init proto st"
| "exec proto DetectLanguage st = snd (detectLanguage st)"
| "exec proto (LoadLanguage lang) st = loadLanguage proto lang NoCont st"
| "exec proto (Translate key) st = snd (translate proto st key)"
| "exec proto ApplyTranslations st = applyTranslations proto st"
| "exec proto (SetLanguage lang) st = setLanguage proto lang st"
| "exec proto UpdateLanguageSelector st = updateLanguageSelector st"
| "exec proto SetupEventListeners st = setupEventListeners st"
| "exec proto (SelectorChange v) st = selector_change proto v st"
| "exec proto (FetchSettled n outcome) st = fetch_settled proto n outcome st"

inductive reachable :: "proto \<Rightarrow> i18n_state \<Rightarrow> bool" for proto where
  start: "fresh st \<Longrightarrow> reachable proto st"
| step: "reachable proto st \<Longrightarrow> reachable proto (exec proto op st)"

text \<open>
  The words of the specification for "the key path resolves in the dictionary": every
  segment is an entry of the node reached so far, a key of an object or an index into an
  array. A string, a number, a boolean or \<^verbatim>\<open>null\<close> is a leaf and has no entries.
\<close>

fun dict_lookup :: "jsval \<Rightarrow> string list \<Rightarrow> jsval option" where
  "dict_lookup v [] = Some v"
| "dict_lookup (JObj kvs) (k # ks) =
     (case map_of kvs k of Some x \<Rightarrow> dict_lookup x ks | None \<Rightarrow> None)"
| "dict_lookup (JArr xs) (k # ks) =
     (case array_index k of
        Some i \<Rightarrow> if i < length xs then dict_lookup (xs ! i) ks else None
      | None \<Rightarrow> None)"
| "dict_lookup v (k # ks) = None"


section \<open>Example pages\<close>

text \<open>
  A prototype chain on which no property is found. No key of the examples below names a
  property of a built-in prototype, so every host answers the inherited reads that the
  examples make with \<^verbatim>\<open>undefined\<close>, as this one does.
\<close>

definition no_inherited :: proto where
  "no_inherited v k = JUndefined"

definition english :: jsval where
  "english =
     JObj [(''meta'', JObj [(''title'', JStr ''ENDEV'')]),
           (''nav'', JObj [(''home'', JStr ''Home''), (''about'', JStr [])]),
           (''contact'', JObj [(''success_message'', JStr ''Message sent'')])]"

text \<open>A dictionary without a \<^verbatim>\<open>meta.title\<close> entry.\<close>

definition untitled :: jsval where
  "untitled = JObj [(''nav'', JObj [(''home'', JStr ''Home'')])]"

definition page :: i18n_state where
  "page =
     \<lparr>currentLanguage = ''en'', translations_cache = [], localStorage = [],
      nav_language = Some ''de-DE'', nav_userLanguage = None, console = [],
      title = ''ENDEV'', html_lang = ''en'',
      elements = [\<lparr>tagName = ''H1'', data_i18n = ''nav.home'', placeholder = None,
                    textContent = ''Home''\<rparr>],
      languageSelect = Some ''en'', listeners = 0, pending = []\<rparr>"

definition loaded_page :: i18n_state where
  "loaded_page = page\<lparr>translations_cache := [(''en'', english)]\<rparr>"

definition untitled_page :: i18n_state where
  "untitled_page = page\<lparr>translations_cache := [(''en'', untitled)]\<rparr>"




section \<open>Contact form: the page and the email client\<close>

text \<open>
  A field of the form with the \<^verbatim>\<open>.validate\<close> element that its parent may hold. The
  source tests both for existence, so both are optional in the model.
\<close>

record validate_div =
  vd_text :: string
  vd_display :: string

record field_el =
  fvalue :: string
  fdefault :: string
  validateDiv :: "validate_div option"
  is_invalid :: bool

text \<open>\<^verbatim>\<open>EMAIL_CONFIG\<close> and the test for its placeholders.\<close>

record email_config =
  serviceID :: string
  templateID :: string
  publicKey :: string

definition EMAIL_CONFIG :: email_config where
  "EMAIL_CONFIG =
     \<lparr>serviceID = ''artesanous'', templateID = ''endev001'', publicKey = ''LrvW_eq15TU-SfpRs''\<rparr>"

definition isConfigured :: "email_config \<Rightarrow> bool" where
  "isConfigured cfg =
     (serviceID cfg \<noteq> ''YOUR_SERVICE_ID'' \<and> templateID cfg \<noteq> ''YOUR_TEMPLATE_ID''
      \<and> publicKey cfg \<noteq> ''YOUR_PUBLIC_KEY'')"

text \<open>A call of the external \<^verbatim>\<open>emailjs.send(serviceID, templateID, templateParams)\<close>.\<close>

record template_params =
  from_name :: string
  from_email :: string
  tp_subject :: string
  tp_message :: string
  to_email :: string

type_synonym send_call = "string \<times> string \<times> template_params"

text \<open>The callbacks that \<^verbatim>\<open>setTimeout\<close> holds for five seconds.\<close>

datatype timer = HideSuccess | HideError

text \<open>
  The state of the form module. The form, its submit button and the three status
  containers (\<^verbatim>\<open>.loading\<close>, \<^verbatim>\<open>.error-message\<close>, \<^verbatim>\<open>.sent-message\<close>) are read without a
  test by the source: the model is of the pages that have them. \<open>emailjs_loaded\<close> says
  whether the global \<^verbatim>\<open>emailjs\<close> is defined, \<open>emailjs_init_throws\<close> whether its
  \<^verbatim>\<open>init\<close> throws; \<open>emailjs_inits\<close> and \<open>sent\<close> record the calls of \<^verbatim>\<open>emailjs.init\<close>
  and \<^verbatim>\<open>emailjs.send\<close>, \<open>in_flight\<close> counts the sends that have not settled.
  \<open>window_i18n\<close> is the i18n module when its script is on the page; its warnings go to
  its own console.
\<close>

record form_state =
  form_fields :: "field_name \<Rightarrow> field_el option"
  loading_display :: string
  submit_disabled :: bool
  error_text :: string
  error_display :: string
  success_text :: string
  success_display :: string
  timers :: "timer list"
  initialized :: bool
  emailjs_loaded :: bool
  emailjs_init_throws :: bool
  emailjs_inits :: "string list"
  sent :: "send_call list"
  in_flight :: nat
  form_console :: "log_entry list"
  window_i18n :: "i18n_state option"

definition form_log :: "level \<Rightarrow> string \<Rightarrow> jsval list \<Rightarrow> form_state \<Rightarrow> form_state" where
  "form_log l msg args st = st\<lparr>form_console := form_console st @ [(l, msg, args)]\<rparr>"

subsection \<open>UI feedback\<close>

definition hideAllMessages :: "form_state \<Rightarrow> form_state" where
  "hideAllMessages st =
     st\<lparr>loading_display := ''none'', error_display := ''none'', success_display := ''none''\<rparr>"

definition showLoading :: "form_state \<Rightarrow> form_state" where
  "showLoading st = (hideAllMessages st)\<lparr>loading_display := ''block'', submit_disabled := True\<rparr>"

definition hideLoading :: "form_state \<Rightarrow> form_state" where
  "hideLoading st = st\<lparr>loading_display := ''none'', submit_disabled := False\<rparr>"

text \<open>\<^verbatim>\<open>message || '...'\<close> is a truthiness test of the message.\<close>

definition showSuccess :: "jsval \<Rightarrow> form_state \<Rightarrow> form_state" where
  "showSuccess message st =
     (hideLoading st)
       \<lparr>success_text :=
          ToString (if truthy message then message
                    else JStr ''Your message has been sent. Thank you!''),
        success_display := ''block'',
        timers := timers st @ [HideSuccess]\<rparr>"

definition showError :: "jsval \<Rightarrow> form_state \<Rightarrow> form_state" where
  "showError message st =
     (hideLoading st)
       \<lparr>error_text :=
          ToString (if truthy message then message
                    else JStr ''There was an error. Please try again.''),
        error_display := ''block'',
        timers := timers st @ [HideError]\<rparr>"

definition showFieldError :: "field_name \<Rightarrow> string \<Rightarrow> form_state \<Rightarrow> form_state" where
  "showFieldError fieldName errorMessage st =
     (case form_fields st fieldName of
        None \<Rightarrow> st
      | Some field \<Rightarrow>
          (case validateDiv field of
             None \<Rightarrow> st
           | Some d \<Rightarrow>
               st\<lparr>form_fields := (form_fields st)
                     (fieldName \<mapsto>
                        field\<lparr>validateDiv := Some (d\<lparr>vd_text := errorMessage, vd_display := ''block''\<rparr>),
                              is_invalid := True\<rparr>)\<rparr>))"

definition clear_field :: "form_state \<Rightarrow> field_name \<Rightarrow> form_state" where
  "clear_field st fieldName =
     (case form_fields st fieldName of
        None \<Rightarrow> st
      | Some field \<Rightarrow>
          (case validateDiv field of
             None \<Rightarrow> st
           | Some d \<Rightarrow>
               st\<lparr>form_fields := (form_fields st)
                     (fieldName \<mapsto>
                        field\<lparr>validateDiv := Some (d\<lparr>vd_text := [], vd_display := ''none''\<rparr>),
                              is_invalid := False\<rparr>)\<rparr>))"

definition clearFieldErrors :: "form_state \<Rightarrow> form_state" where
  "clearFieldErrors st = foldl clear_field st field_names"

text \<open>
  The oldest timer fires (all delays are five seconds, so they fire in the order they
  were set) and hides its banner.
\<close>

definition timer_fires :: "form_state \<Rightarrow> form_state" where
  "timer_fires st =
     (case timers st of
        [] \<Rightarrow> st
      | HideSuccess # ts \<Rightarrow> st\<lparr>success_display := ''none'', timers := ts\<rparr>
      | HideError # ts \<Rightarrow> st\<lparr>error_display := ''none'', timers := ts\<rparr>)"

text \<open>\<^verbatim>\<open>form.reset()\<close> gives every field its default value back.\<close>

definition form_reset :: "form_state \<Rightarrow> form_state" where
  "form_reset st =
     st\<lparr>form_fields := (\<lambda>n. map_option (\<lambda>f. f\<lparr>fvalue := fdefault f\<rparr>) (form_fields st n))\<rparr>"

definition resetForm :: "form_state \<Rightarrow> form_state" where
  "resetForm st = hideAllMessages (clearFieldErrors (form_reset st))"

subsection \<open>Email sending\<close>

definition EmailService_init :: "email_config \<Rightarrow> form_state \<Rightarrow> bool \<times> form_state" where
  "EmailService_init cfg st =
     (if \<not> emailjs_loaded st
      then (False, form_log ERROR ''[ContactForm] EmailJS library not loaded'' [] st)
      else if \<not> isConfigured cfg
      then (False,
            form_log WARN
              ''[ContactForm] EmailJS not configured. Please update EMAIL_CONFIG in contact-form.js''
              [] st)
      else (let st1 = st\<lparr>emailjs_inits := emailjs_inits st @ [publicKey cfg]\<rparr>
            in if emailjs_init_throws st1
               then (False,
                     form_log ERROR ''[ContactForm] Failed to initialize EmailJS:'' [] st1)
               else (True,
                     form_log LOG ''[ContactForm] EmailJS initialized successfully'' []
                       (st1\<lparr>initialized := True\<rparr>))))"

text \<open>
  \<^verbatim>\<open>EmailService.send\<close>: the promise is rejected at once when the service is not
  initialised; otherwise \<^verbatim>\<open>emailjs.send\<close> is called and the promise waits for it.
\<close>

datatype promise = Rejected string | Waiting

definition EmailService_send ::
  "email_config \<Rightarrow> form_data \<Rightarrow> form_state \<Rightarrow> promise \<times> form_state" where
  "EmailService_send cfg formData st =
     (if \<not> initialized st then (Rejected ''EmailJS not initialized'', st)
      else (let templateParams =
                  \<lparr>from_name = fd_name formData, from_email = fd_email formData,
                   tp_subject = fd_subject formData, tp_message = fd_message formData,
                   to_email = ''contact@endev.us''\<rparr>;
                st1 = form_log LOG ''[ContactForm] Sending email via EmailJS...'' [] st
            in (Waiting,
                st1\<lparr>sent := sent st1 @ [(serviceID cfg, templateID cfg, templateParams)],
                    in_flight := Suc (in_flight st1)\<rparr>)))"

subsection \<open>Form handler\<close>

text \<open>
  The message of a banner: from the i18n module when \<^verbatim>\<open>window.i18n\<close> is there, else the
  fixed text.
\<close>

definition banner_message ::
  "proto \<Rightarrow> string \<Rightarrow> string \<Rightarrow> form_state \<Rightarrow> jsval \<times> form_state" where
  "banner_message proto key fixed st =
     (case window_i18n st of
        Some i \<Rightarrow> (case translate proto i key of
                     (msg, i') \<Rightarrow> (msg, st\<lparr>window_i18n := Some i'\<rparr>))
      | None \<Rightarrow> (JStr fixed, st))"

text \<open>The \<^verbatim>\<open>then\<close> callback of the submit handler; \<^verbatim>\<open>AUTO_RESET_FORM\<close> is \<^verbatim>\<open>true\<close>.\<close>

definition on_sent :: "proto \<Rightarrow> form_state \<Rightarrow> form_state" where
  "on_sent proto st =
     (case banner_message proto ''contact.success_message''
             ''Your message has been sent successfully. Thank you!'' st of
        (successMsg, st1) \<Rightarrow> resetForm (showSuccess successMsg st1))"

text \<open>The \<^verbatim>\<open>catch\<close> callback of the submit handler.\<close>

definition on_failed :: "proto \<Rightarrow> form_state \<Rightarrow> form_state" where
  "on_failed proto st =
     (case banner_message proto ''contact.error_message''
             ''There was an error sending your message. Please try again later.'' st of
        (errorMsg, st1) \<Rightarrow> showError errorMsg st1)"

text \<open>The value of a field as the submit handler reads it: trimmed, empty when absent.\<close>

definition field_value :: "form_state \<Rightarrow> field_name \<Rightarrow> string" where
  "field_value st n = (case form_fields st n of Some f \<Rightarrow> trim (fvalue f) | None \<Rightarrow> [])"

definition read_form :: "form_state \<Rightarrow> form_data" where
  "read_form st =
     \<lparr>fd_name = field_value st Name, fd_email = field_value st Email,
      fd_subject = field_value st Subject, fd_message = field_value st Message\<rparr>"

fun field_key :: "field_name \<Rightarrow> string" where
  "field_key Name = ''name''"
| "field_key Email = ''email''"
| "field_key Subject = ''subject''"
| "field_key Message = ''message''"

definition errors_object :: "validation \<Rightarrow> jsval" where
  "errors_object v =
     JObj (concat (map (\<lambda>n. case errors v n of Some e \<Rightarrow> [(field_key n, JStr e)] | None \<Rightarrow> [])
                     field_names))"

definition show_errors :: "validation \<Rightarrow> form_state \<Rightarrow> form_state" where
  "show_errors v st =
     foldl (\<lambda>s n. case errors v n of Some e \<Rightarrow> showFieldError n e s | None \<Rightarrow> s) st field_names"

definition handleSubmit :: "email_config \<Rightarrow> proto \<Rightarrow> form_state \<Rightarrow> form_state" where
  "handleSubmit cfg proto st =
     (let st1 = form_log LOG ''[ContactForm] Form submitted'' [] st;
          st2 = clearFieldErrors st1;
          formData = read_form st2;
          validation = validateForm formData
      in if \<not> isValid validation
         then show_errors validation
                (form_log LOG ''[ContactForm] Validation failed:'' [errors_object validation] st2)
         else if \<not> isConfigured cfg
         then showError
                (JStr ''Contact form is not configured yet. Please contact the administrator.'')
                st2
         else (case EmailService_send cfg formData (showLoading st2) of
                 (Rejected err, st3) \<Rightarrow> on_failed proto st3
               | (Waiting, st3) \<Rightarrow> st3))"

text \<open>
  The external client settles a send that is in flight: \<open>True\<close> for success. The
  callbacks of \<^verbatim>\<open>EmailService.send\<close> log, then those of the submit handler run.
\<close>

definition send_settled :: "proto \<Rightarrow> bool \<Rightarrow> form_state \<Rightarrow> form_state" where
  "send_settled proto ok st =
     (if in_flight st = 0 then st
      else (let st1 = st\<lparr>in_flight := in_flight st - 1\<rparr>
            in if ok
               then on_sent proto
                      (form_log LOG ''[ContactForm] Email sent successfully:'' [] st1)
               else on_failed proto
                      (form_log ERROR ''[ContactForm] Failed to send email:'' [] st1)))"

text \<open>\<^verbatim>\<open>ContactForm.setup\<close> on a page that has the form.\<close>

definition ContactForm_setup :: "email_config \<Rightarrow> form_state \<Rightarrow> form_state" where
  "ContactForm_setup cfg st =
     form_log LOG ''[ContactForm] Setup complete'' [] (snd (EmailService_init cfg st))"

text \<open>The blur handler that \<^verbatim>\<open>setup\<close> installs on every field that exists.\<close>

definition on_blur :: "field_name \<Rightarrow> form_state \<Rightarrow> form_state" where
  "on_blur fieldName st =
     (case form_fields st fieldName of
        None \<Rightarrow> st
      | Some field \<Rightarrow>
          (case validateField fieldName (fvalue field) of
             Some e \<Rightarrow> if e \<noteq> [] then showFieldError fieldName e st else
               (case validateDiv field of
                  None \<Rightarrow> st
                | Some d \<Rightarrow>
                    st\<lparr>form_fields := (form_fields st)
                          (fieldName \<mapsto> field\<lparr>validateDiv := Some (d\<lparr>vd_display := ''none''\<rparr>),
                                            is_invalid := False\<rparr>)\<rparr>)
           | None \<Rightarrow>
               (case validateDiv field of
                  None \<Rightarrow> st
                | Some d \<Rightarrow>
                    st\<lparr>form_fields := (form_fields st)
                          (fieldName \<mapsto> field\<lparr>validateDiv := Some (d\<lparr>vd_display := ''none''\<rparr>),
                                            is_invalid := False\<rparr>)\<rparr>)))"

subsection \<open>Example forms\<close>

definition input :: "string \<Rightarrow> field_el" where
  "input v =
     \<lparr>fvalue = v, fdefault = [], validateDiv = Some \<lparr>vd_text = [], vd_display = ''none''\<rparr>,
      is_invalid = False\<rparr>"

definition filled :: "field_name \<Rightarrow> field_el option" where
  "filled n =
     Some (input (case n of
                    Name \<Rightarrow> ''  Ada Lovelace ''
                  | Email \<Rightarrow> ''ada@example.org''
                  | Subject \<Rightarrow> ''Hello''
                  | Message \<Rightarrow> ''A message of some length.''))"

definition blank_form :: form_state where
  "blank_form =
     \<lparr>form_fields = (\<lambda>n. Some (input [])), loading_display = ''none'', submit_disabled = False,
      error_text = [], error_display = ''none'', success_text = [], success_display = ''none'',
      timers = [], initialized = False, emailjs_loaded = True, emailjs_init_throws = False,
      emailjs_inits = [], sent = [], in_flight = 0, form_console = [], window_i18n = None\<rparr>"

definition filled_form :: form_state where
  "filled_form = blank_form\<lparr>form_fields := filled\<rparr>"

definition placeholder_config :: email_config where
  "placeholder_config = EMAIL_CONFIG\<lparr>publicKey := ''YOUR_PUBLIC_KEY''\<rparr>"

text \<open>The filled form on a page where the \<^verbatim>\<open>emailjs\<close> library did not load, after setup.\<close>

definition offline_form :: form_state where
  "offline_form = ContactForm_setup EMAIL_CONFIG (filled_form\<lparr>emailjs_loaded := False\<rparr>)"

section \<open>Properties of the validators\<close>

lemma validators_message_nonempty: "validators f v = Some e \<Longrightarrow> e \<noteq> []"
  by (cases f)
     (auto simp: validate_name_def validate_email_def validate_subject_def
        validate_message_def split: if_splits)

lemma trim_Nil [simp]: "trim [] = []"
  by (simp add: trim_def)

text \<open>
  C2. For every input string, the name and the subject validator return an error exactly
  when the trimmed string has fewer than 4 characters (so a trimmed length of exactly 4
  passes), and the message validator returns an error exactly when the trimmed string has
  fewer than 10 characters (so exactly 10 passes).
\<close>

theorem validators_length_threshold:
  "(validators Name v \<noteq> None) = (length (trim v) < 4)
   \<and> (validators Subject v \<noteq> None) = (length (trim v) < 4)
   \<and> (validators Message v \<noteq> None) = (length (trim v) < 10)"
  by (auto simp: validate_name_def validate_subject_def validate_message_def)

lemma validate_step_eq:
  "validate_step fd acc f =
     (case validators f (field_of fd f) of None \<Rightarrow> acc
      | Some e \<Rightarrow> acc\<lparr>errors := (errors acc)(f \<mapsto> e), isValid := False\<rparr>)"
  by (auto simp: validate_step_def validateField_def split: option.splits
        dest: validators_message_nonempty)

lemma ex_field_name: "(\<exists>f. P f) = (P Name \<or> P Email \<or> P Subject \<or> P Message)"
  by (metis field_name.exhaust)

lemma errors_validateForm: "errors (validateForm fd) f = validators f (field_of fd f)"
  by (cases f)
     (simp_all add: validateForm_def field_names_def validate_step_eq split: option.splits)

lemma not_isValid_validateForm:
  "(\<not> isValid (validateForm fd)) = (\<exists>f. validators f (field_of fd f) \<noteq> None)"
  unfolding ex_field_name
  by (simp add: validateForm_def field_names_def validate_step_eq split: option.splits)

text \<open>
  C3. For every form input record, whole-form validation returns an invalid overall flag
  if and only if at least one of the four field validators returns an error for its
  field's value, and the error map has an entry for exactly the fields whose validator
  returned an error (the entry being that validator's message).
\<close>

theorem validateForm_exact:
  "(\<not> isValid (validateForm fd)) = (\<exists>f. validators f (field_of fd f) \<noteq> None)
   \<and> dom (errors (validateForm fd)) = {f. validators f (field_of fd f) \<noteq> None}
   \<and> errors (validateForm fd) = (\<lambda>f. validators f (field_of fd f))"
  by (auto simp: not_isValid_validateForm errors_validateForm dom_def)

section \<open>What the operations do to the active language\<close>

lemma supported_nonempty: "s \<in> set availableLanguages \<Longrightarrow> s \<noteq> []"
  by (auto simp: availableLanguages_def)

lemma default_supported: "defaultLanguage \<in> set availableLanguages"
  by (simp add: defaultLanguage_def availableLanguages_def)

lemma cur_log [simp]: "currentLanguage (log l m a st) = currentLanguage st"
  by (simp add: log_def)

lemma cur_translate [simp]: "currentLanguage (snd (translate proto st key)) = currentLanguage st"
  by (simp add: translate_def split: option.splits)

lemma snd_apply_elements_Cons:
  "snd (apply_elements proto (e # es) st)
   = snd (apply_elements proto es (snd (translate proto st (data_i18n e))))"
  by (simp add: case_prod_beta)

lemma cur_apply_elements [simp]:
  "currentLanguage (snd (apply_elements proto es st)) = currentLanguage st"
proof (induction es arbitrary: st)
  case Nil
  show ?case by simp
next
  case (Cons e es)
  show ?case unfolding snd_apply_elements_Cons by (simp add: Cons.IH)
qed

lemma applyTranslations_unfold:
  "applyTranslations proto st =
     (let r = translate proto (log LOG ''[i18n] Applying translations...'' [] st) ''meta.title'';
          st3 = (if truthy (fst r) then (snd r)\<lparr>title := ToString (fst r)\<rparr> else snd r);
          st4 = st3\<lparr>html_lang := currentLanguage st3\<rparr>;
          q = apply_elements proto (elements st4) st4
      in log LOG ''[i18n] Translations applied to''
           [JNum (int (length (fst q))), JStr ''elements''] ((snd q)\<lparr>elements := fst q\<rparr>))"
  by (simp add: applyTranslations_def Let_def case_prod_beta)

lemma cur_applyTranslations [simp]:
  "currentLanguage (applyTranslations proto st) = currentLanguage st"
  by (simp add: applyTranslations_unfold Let_def)

lemma cur_updateLanguageSelector [simp]:
  "currentLanguage (updateLanguageSelector st) = currentLanguage st"
  by (simp add: updateLanguageSelector_def split: option.splits)

lemma cur_setupEventListeners [simp]:
  "currentLanguage (setupEventListeners st) = currentLanguage st"
  by (simp add: setupEventListeners_def split: option.splits)

lemma cur_run_then [simp]: "currentLanguage (run_then proto k st) = currentLanguage st"
  by (cases k) simp_all

lemma cur_loadLanguage [simp]:
  "currentLanguage (loadLanguage proto lang k st) = currentLanguage st"
  by (simp add: loadLanguage_def log_def)

lemma cur_run_catch [simp]: "currentLanguage (run_catch proto k err st) = currentLanguage st"
  by (cases k) simp_all

lemma cur_fetch_settled [simp]:
  "currentLanguage (fetch_settled proto n outcome st) = currentLanguage st"
  by (simp add: fetch_settled_def Let_def split: prod.splits fetch_outcome.splits)

lemma cur_detectLanguage [simp]:
  "currentLanguage (snd (detectLanguage st)) = currentLanguage st"
  by (simp add: detectLanguage_def Let_def split: option.splits)

lemma detectLanguage_supported: "fst (detectLanguage st) \<in> set availableLanguages"
  by (auto simp: detectLanguage_def Let_def default_supported split: option.splits)

lemma cur_setLanguage:
  "currentLanguage (setLanguage proto lang st)
   = (if lang \<in> set availableLanguages then lang else currentLanguage st)"
  by (simp add: setLanguage_def Let_def)

lemma cur_init:
  "currentLanguage (init proto st)
   = fst (detectLanguage (log LOG ''[i18n] Initializing internationalization...'' [] st))"
  by (simp add: init_def Let_def case_prod_beta)

section \<open>Properties of language detection\<close>

text \<open>
  C4. Language detection resolves in this order. A code saved in local storage that is in
  the supported set is the result, whatever the browser locale is. Otherwise (nothing
  saved, or a saved code that is not supported) the primary subtag of the browser locale
  is the result if it is supported. Otherwise the result is the fixed default. The result
  is the active language when \<^verbatim>\<open>init\<close> returns.
\<close>

theorem detectLanguage_priority:
  "(map_of (localStorage st) ''endev_language'' = Some s \<and> s \<in> set availableLanguages
      \<longrightarrow> fst (detectLanguage st) = s)
   \<and> ((\<forall>s. map_of (localStorage st) ''endev_language'' = Some s \<longrightarrow> s \<notin> set availableLanguages)
      \<longrightarrow> (langCode (browserLang st) = Some c \<and> c \<in> set availableLanguages
             \<longrightarrow> fst (detectLanguage st) = c)
          \<and> ((\<forall>c. langCode (browserLang st) = Some c \<longrightarrow> c \<notin> set availableLanguages)
             \<longrightarrow> fst (detectLanguage st) = defaultLanguage))
   \<and> currentLanguage (init proto st) = fst (detectLanguage st)"
proof -
  have "fst (detectLanguage (log l m a st)) = fst (detectLanguage st)" for l m a
    by (simp add: detectLanguage_def log_def browserLang_def Let_def split: option.splits)
  then have "currentLanguage (init proto st) = fst (detectLanguage st)"
    by (simp add: cur_init)
  then show ?thesis
    by (auto simp: detectLanguage_def Let_def supported_nonempty split: option.splits)
qed

text \<open>
  The three cases of the specification: a stored \<open>fr\<close> under the locale \<open>ja-JP\<close> gives
  \<open>fr\<close>; the locale \<open>de-DE\<close> with nothing stored gives \<open>de\<close>; the locale \<open>ja-JP\<close> with
  nothing stored gives the default.
\<close>

theorem detectLanguage_priority_witness:
  "fst (detectLanguage (page\<lparr>localStorage := [(''endev_language'', ''fr'')],
                               nav_language := Some ''ja-JP''\<rparr>)) = ''fr''
   \<and> fst (detectLanguage page) = ''de''
   \<and> fst (detectLanguage (page\<lparr>nav_language := Some ''ja-JP''\<rparr>)) = ''en''"
proof -
  have lower: "toLowerCase ''de-DE'' = ''de-de''" "toLowerCase ''ja-JP'' = ''ja-jp''"
    by code_simp+
  have a: "fst (detectLanguage (page\<lparr>localStorage := [(''endev_language'', ''fr'')],
                                      nav_language := Some ''ja-JP''\<rparr>)) = ''fr''"
    using detectLanguage_priority
      [of "page\<lparr>localStorage := [(''endev_language'', ''fr'')], nav_language := Some ''ja-JP''\<rparr>"
          "''fr''"]
    by (simp add: availableLanguages_def)
  have b: "fst (detectLanguage page) = ''de''"
    using detectLanguage_priority [of page _ "''de''"]
    by (simp add: page_def availableLanguages_def langCode_def browserLang_def split_def lower)
  have c: "fst (detectLanguage (page\<lparr>nav_language := Some ''ja-JP''\<rparr>)) = ''en''"
    using detectLanguage_priority [of "page\<lparr>nav_language := Some ''ja-JP''\<rparr>"]
    by (simp add: page_def availableLanguages_def langCode_def browserLang_def split_def lower
          defaultLanguage_def)
  from a b c show ?thesis by simp
qed

section \<open>The active language stays supported\<close>

lemma cur_setLanguage_pow:
  "currentLanguage st \<in> set availableLanguages \<Longrightarrow>
   currentLanguage (((setLanguage proto v) ^^ n) st) \<in> set availableLanguages"
  by (induction n) (simp_all add: cur_setLanguage)

lemma cur_selector_change:
  "currentLanguage st \<in> set availableLanguages \<Longrightarrow>
   currentLanguage (selector_change proto v st) \<in> set availableLanguages"
  by (simp add: selector_change_def cur_setLanguage_pow split: option.splits)

lemma exec_preserves:
  "currentLanguage st \<in> set availableLanguages \<Longrightarrow>
   currentLanguage (exec proto op st) \<in> set availableLanguages"
  by (cases op)
     (simp_all add: cur_setLanguage cur_init detectLanguage_supported cur_selector_change)

lemma fresh_supported: "fresh st \<Longrightarrow> currentLanguage st \<in> set availableLanguages"
  by (simp add: fresh_def availableLanguages_def)

lemma reachable_supported:
  "reachable proto st \<Longrightarrow> currentLanguage st \<in> set availableLanguages"
  by (induction rule: reachable.induct) (simp_all add: fresh_supported exec_preserves)

text \<open>
  C5. The active language code is always in the supported set: the value a fresh module
  starts with is supported, language detection returns a supported code only, the
  language switch assigns a supported code only, every operation of the module keeps a
  supported active language supported, and so the active language is supported in every
  state the module reaches.
\<close>

theorem currentLanguage_always_supported:
  "(fresh st0 \<longrightarrow> currentLanguage st0 \<in> set availableLanguages)
   \<and> fst (detectLanguage st) \<in> set availableLanguages
   \<and> (currentLanguage st \<in> set availableLanguages
        \<longrightarrow> currentLanguage (setLanguage proto lang st) \<in> set availableLanguages)
   \<and> (currentLanguage st \<in> set availableLanguages
        \<longrightarrow> currentLanguage (exec proto op st) \<in> set availableLanguages)
   \<and> (reachable proto st' \<longrightarrow> currentLanguage st' \<in> set availableLanguages)"
  by (simp add: fresh_supported detectLanguage_supported cur_setLanguage exec_preserves
        reachable_supported)

text \<open>
  On the example page: after \<^verbatim>\<open>init\<close>, a switch to \<open>fr\<close>, the arrival of its
  dictionary and a rejected switch to \<open>ja\<close>, the active language is \<open>fr\<close>.
\<close>

theorem currentLanguage_always_supported_witness:
  "fresh page
   \<and> reachable no_inherited
        (exec no_inherited (SetLanguage ''ja'')
          (exec no_inherited (FetchSettled 1 (Loaded english))
            (exec no_inherited (SetLanguage ''fr'') (exec no_inherited Init page))))
   \<and> currentLanguage
        (exec no_inherited (SetLanguage ''ja'')
          (exec no_inherited (FetchSettled 1 (Loaded english))
            (exec no_inherited (SetLanguage ''fr'') (exec no_inherited Init page)))) = ''fr''
   \<and> currentLanguage
        (exec no_inherited (SetLanguage ''ja'')
          (exec no_inherited (FetchSettled 1 (Loaded english))
            (exec no_inherited (SetLanguage ''fr'') (exec no_inherited Init page))))
       \<in> set availableLanguages"
proof -
  have f: "fresh page" by (simp add: fresh_def page_def)
  have r: "reachable no_inherited
        (exec no_inherited (SetLanguage ''ja'')
          (exec no_inherited (FetchSettled 1 (Loaded english))
            (exec no_inherited (SetLanguage ''fr'') (exec no_inherited Init page))))"
    by (intro reachable.step reachable.start f)
  have c: "currentLanguage
        (exec no_inherited (SetLanguage ''ja'')
          (exec no_inherited (FetchSettled 1 (Loaded english))
            (exec no_inherited (SetLanguage ''fr'') (exec no_inherited Init page)))) = ''fr''"
    by (simp add: cur_setLanguage availableLanguages_def)
  show ?thesis
    using f r c
      currentLanguage_always_supported
        [of page page no_inherited "''fr''" Init
            "exec no_inherited (SetLanguage ''ja'')
              (exec no_inherited (FetchSettled 1 (Loaded english))
                (exec no_inherited (SetLanguage ''fr'') (exec no_inherited Init page)))"]
    by simp
qed

section \<open>Rejected language switches\<close>

text \<open>
  C9. For every language code outside the supported set, the language switch only logs
  an error: the active language, the persisted preference and the cached dictionaries are
  unchanged (as is everything else but the console, and no fetch is started).
\<close>

theorem setLanguage_unsupported:
  "lang \<notin> set availableLanguages \<Longrightarrow>
   setLanguage proto lang st
     = st\<lparr>console := console st @ [(ERROR, ''[i18n] Language not supported:'', [JStr lang])]\<rparr>
   \<and> currentLanguage (setLanguage proto lang st) = currentLanguage st
   \<and> localStorage (setLanguage proto lang st) = localStorage st
   \<and> translations_cache (setLanguage proto lang st) = translations_cache st
   \<and> pending (setLanguage proto lang st) = pending st"
  by (simp add: setLanguage_def log_def)

theorem setLanguage_unsupported_witness:
  "''ja'' \<notin> set availableLanguages
   \<and> setLanguage no_inherited ''ja'' loaded_page
       = loaded_page\<lparr>console := [(ERROR, ''[i18n] Language not supported:'', [JStr ''ja''])]\<rparr>
   \<and> currentLanguage (setLanguage no_inherited ''ja'' loaded_page) = ''en''
   \<and> localStorage (setLanguage no_inherited ''ja'' loaded_page) = []
   \<and> translations_cache (setLanguage no_inherited ''ja'' loaded_page) = [(''en'', english)]"
proof -
  have h: "''ja'' \<notin> set availableLanguages" by (simp add: availableLanguages_def)
  show ?thesis
    using h setLanguage_unsupported [OF h, of no_inherited loaded_page]
    by (simp add: loaded_page_def page_def)
qed

section \<open>Properties of the translation lookup\<close>










text \<open>
  C6. The claim: for every key whose path does not resolve in the loaded dictionary, the
  lookup returns the key itself and logs a warning. The code reads each segment as a
  property of the value reached, so a segment that names a built-in property is found
  although the dictionary has no such entry. In the example dictionary \<open>nav.home\<close> is
  the string \<open>Home\<close>; the path \<open>nav.home.length\<close> does not resolve in the dictionary,
  and the lookup returns the number 4 and logs nothing, on every host.
\<close>

theorem translate_builtin_property:
  "dict_lookup english (split CHR ''.'' ''nav.home.length'') = None
   \<and> translate proto loaded_page ''nav.home.length'' = (JNum 4, loaded_page)"
  by (simp add: english_def split_def translate_def loaded_page_def page_def getProp_def)

text \<open>
  C7. The claim: for every key the lookup returns a string. A key that names an inner
  node of the dictionary resolves to that node, and the lookup returns the object: for
  the key \<open>nav\<close> of the example dictionary, on every host.
\<close>

theorem translate_inner_node:
  "translate proto loaded_page ''nav''
     = (JObj [(''home'', JStr ''Home''), (''about'', JStr [])], loaded_page)
   \<and> (\<forall>s. fst (translate proto loaded_page ''nav'') \<noteq> JStr s)"
  by (simp add: english_def split_def translate_def loaded_page_def page_def getProp_def)

section \<open>The page title\<close>

lemma title_log [simp]: "title (log l m a st) = title st"
  by (simp add: log_def)

lemma title_translate [simp]: "title (snd (translate proto st key)) = title st"
  by (simp add: translate_def split: option.splits)

lemma title_apply_elements [simp]: "title (snd (apply_elements proto es st)) = title st"
proof (induction es arbitrary: st)
  case Nil
  show ?case by simp
next
  case (Cons e es)
  show ?case unfolding snd_apply_elements_Cons by (simp add: Cons.IH)
qed

lemma title_applyTranslations:
  "title (applyTranslations proto st)
   = (let r = translate proto (log LOG ''[i18n] Applying translations...'' [] st) ''meta.title''
      in if truthy (fst r) then ToString (fst r) else title st)"
  by (simp add: applyTranslations_unfold Let_def)

text \<open>
  C8. The claim: the page title is set only if \<open>meta.title\<close> resolves, and is left
  unchanged otherwise. The lookup returns the key where it does not resolve, the key is
  truthy, and so the test before the assignment never fails: whenever the loop of the
  lookup leaves through its \<^verbatim>\<open>else\<close> branch, the title becomes the text \<open>meta.title\<close>.
\<close>

theorem title_unresolved:
  "walk proto (getProp proto (JObj (translations_cache st)) (currentLanguage st))
     (split CHR ''.'' ''meta.title'') = None \<Longrightarrow>
   title (applyTranslations proto st) = ''meta.title''"
  by (simp add: title_applyTranslations translate_def log_def)

text \<open>
  The dictionary of \<open>untitled_page\<close> has no \<open>meta\<close> entry, and its title \<open>ENDEV\<close> is
  overwritten.
\<close>

theorem title_unresolved_witness:
  "dict_lookup untitled (split CHR ''.'' ''meta.title'') = None
   \<and> walk no_inherited
        (getProp no_inherited (JObj (translations_cache untitled_page))
           (currentLanguage untitled_page))
        (split CHR ''.'' ''meta.title'') = None
   \<and> title untitled_page = ''ENDEV''
   \<and> title (applyTranslations no_inherited untitled_page) = ''meta.title''"
proof -
  have w: "walk no_inherited
        (getProp no_inherited (JObj (translations_cache untitled_page))
           (currentLanguage untitled_page))
        (split CHR ''.'' ''meta.title'') = None"
    by (simp add: untitled_page_def page_def untitled_def split_def getProp_def no_inherited_def)
  have d: "dict_lookup untitled (split CHR ''.'' ''meta.title'') = None"
    by (simp add: untitled_def split_def)
  have t: "title untitled_page = ''ENDEV''"
    by (simp add: untitled_page_def page_def)
  show ?thesis using w d t title_unresolved [OF w] by simp
qed

section \<open>Properties of the submit handler\<close>

lemma clear_field_frame:
  "sent (clear_field st n) = sent st" "initialized (clear_field st n) = initialized st"
  "error_display (clear_field st n) = error_display st"
  "error_text (clear_field st n) = error_text st"
  by (simp_all add: clear_field_def split: option.splits)

lemma field_value_clear_field: "field_value (clear_field st n) m = field_value st m"
  by (simp add: clear_field_def field_value_def split: option.splits)

lemma clearFieldErrors_frame:
  "sent (clearFieldErrors st) = sent st" "initialized (clearFieldErrors st) = initialized st"
  "error_display (clearFieldErrors st) = error_display st"
  "error_text (clearFieldErrors st) = error_text st"
  "field_value (clearFieldErrors st) m = field_value st m"
  by (simp_all add: clearFieldErrors_def field_names_def clear_field_frame field_value_clear_field)

lemma read_form_clearFieldErrors: "read_form (clearFieldErrors st) = read_form st"
  by (simp add: read_form_def clearFieldErrors_frame)

lemma form_log_frame:
  "sent (form_log l m a st) = sent st" "initialized (form_log l m a st) = initialized st"
  "error_display (form_log l m a st) = error_display st"
  "error_text (form_log l m a st) = error_text st"
  "field_value (form_log l m a st) n = field_value st n"
  by (simp_all add: form_log_def field_value_def)

lemma read_form_form_log: "read_form (form_log l m a st) = read_form st"
  by (simp add: read_form_def form_log_frame)

lemma read_form_sel:
  "fd_name (read_form st) = field_value st Name" "fd_email (read_form st) = field_value st Email"
  "fd_subject (read_form st) = field_value st Subject"
  "fd_message (read_form st) = field_value st Message"
  by (simp_all add: read_form_def)

lemma showFieldError_frame:
  "sent (showFieldError n e st) = sent st"
  "error_display (showFieldError n e st) = error_display st"
  "error_text (showFieldError n e st) = error_text st"
  by (simp_all add: showFieldError_def split: option.splits)

lemma show_errors_frame:
  "sent (show_errors v st) = sent st" "error_display (show_errors v st) = error_display st"
  "error_text (show_errors v st) = error_text st"
  by (simp_all add: show_errors_def field_names_def showFieldError_frame split: option.splits)

lemma showError_effect:
  "sent (showError m st) = sent st" "error_display (showError m st) = ''block''"
  "error_text (showError m st)
   = ToString (if truthy m then m else JStr ''There was an error. Please try again.'')"
  by (simp_all add: showError_def hideLoading_def)

lemma showLoading_frame:
  "sent (showLoading st) = sent st" "initialized (showLoading st) = initialized st"
  by (simp_all add: showLoading_def hideAllMessages_def)

lemma banner_message_frame: "sent (snd (banner_message proto key fixed st)) = sent st"
  by (simp add: banner_message_def split: option.splits prod.splits)

lemma on_failed_frame: "sent (on_failed proto st) = sent st"
  by (simp add: on_failed_def case_prod_beta showError_effect banner_message_frame)

lemma submitted_frame:
  "read_form (clearFieldErrors (form_log LOG ''[ContactForm] Form submitted'' [] st)) = read_form st"
  "sent (clearFieldErrors (form_log LOG ''[ContactForm] Form submitted'' [] st)) = sent st"
  "initialized (clearFieldErrors (form_log LOG ''[ContactForm] Form submitted'' [] st))
   = initialized st"
  "error_display (clearFieldErrors (form_log LOG ''[ContactForm] Form submitted'' [] st))
   = error_display st"
  "error_text (clearFieldErrors (form_log LOG ''[ContactForm] Form submitted'' [] st))
   = error_text st"
  by (simp_all add: read_form_clearFieldErrors read_form_form_log clearFieldErrors_frame
        form_log_frame)

text \<open>The calls of the external send operation that one submission adds.\<close>

lemma sent_handleSubmit:
  "sent (handleSubmit cfg proto st)
     = (if isValid (validateForm (read_form st)) \<and> isConfigured cfg \<and> initialized st
        then sent st @
             [(serviceID cfg, templateID cfg,
               \<lparr>from_name = field_value st Name, from_email = field_value st Email,
                tp_subject = field_value st Subject, tp_message = field_value st Message,
                to_email = ''contact@endev.us''\<rparr>)]
        else sent st)"
  by (simp add: handleSubmit_def Let_def submitted_frame show_errors_frame form_log_frame
        showError_effect EmailService_send_def showLoading_frame on_failed_frame read_form_sel)

text \<open>An invalid form leaves the error banner as it was.\<close>

lemma error_display_invalid:
  "\<not> isValid (validateForm (read_form st)) \<Longrightarrow>
   error_display (handleSubmit cfg proto st) = error_display st"
  by (simp add: handleSubmit_def Let_def submitted_frame show_errors_frame form_log_frame)

lemma error_text_invalid:
  "\<not> isValid (validateForm (read_form st)) \<Longrightarrow>
   error_text (handleSubmit cfg proto st) = error_text st"
  by (simp add: handleSubmit_def Let_def submitted_frame show_errors_frame form_log_frame)

text \<open>A valid form with a placeholder in the configuration shows the configuration error.\<close>

lemma error_banner_unconfigured:
  "isValid (validateForm (read_form st)) \<Longrightarrow> \<not> isConfigured cfg \<Longrightarrow>
   error_display (handleSubmit cfg proto st) = ''block''
   \<and> error_text (handleSubmit cfg proto st)
       = ''Contact form is not configured yet. Please contact the administrator.''"
  by (simp add: handleSubmit_def Let_def submitted_frame showError_effect)

text \<open>What setup leaves in \<^verbatim>\<open>EmailService.initialized\<close>.\<close>

lemma initialized_setup:
  "initialized (ContactForm_setup cfg st)
   = (initialized st \<or> (emailjs_loaded st \<and> isConfigured cfg \<and> \<not> emailjs_init_throws st))"
  by (simp add: ContactForm_setup_def EmailService_init_def form_log_def Let_def)

lemma setup_frame:
  "read_form (ContactForm_setup cfg st) = read_form st"
  "sent (ContactForm_setup cfg st) = sent st"
  "error_display (ContactForm_setup cfg st) = error_display st"
  by (simp_all add: ContactForm_setup_def EmailService_init_def form_log_def Let_def
        read_form_def field_value_def)

lemma filled_form_valid: "isValid (validateForm (read_form filled_form))"
proof -
  have "\<not> (\<exists>f. validators f (field_of (read_form filled_form) f) \<noteq> None)"
    unfolding ex_field_name
    by (simp add: read_form_def field_value_def filled_form_def blank_form_def filled_def
          input_def validate_name_def validate_email_def validate_subject_def
          validate_message_def trim_def is_space_def emailRegex_test_def email_char_def)
  then show ?thesis using not_isValid_validateForm [of "read_form filled_form"] by simp
qed

lemma blank_form_invalid: "\<not> isValid (validateForm (read_form blank_form))"
proof -
  have "validators Name (field_of (read_form blank_form) Name) \<noteq> None"
    by (simp add: read_form_def field_value_def blank_form_def input_def validate_name_def)
  then show ?thesis using not_isValid_validateForm [of "read_form blank_form"] by blast
qed

lemma EMAIL_CONFIG_configured: "isConfigured EMAIL_CONFIG"
  by (simp add: isConfigured_def EMAIL_CONFIG_def)

lemma placeholder_config_unconfigured: "\<not> isConfigured placeholder_config"
  by (simp add: isConfigured_def placeholder_config_def)

text \<open>
  C1 as stated fails in two places. With a valid form and a configuration free of
  placeholders, no send call is made when the service was not initialised (here: the
  \<^verbatim>\<open>emailjs\<close> library did not load). With a placeholder in the configuration and an
  invalid form, the configuration-error banner is not shown.
\<close>

theorem send_iff_valid_and_configured_counterexample:
  "isValid (validateForm (read_form offline_form))
   \<and> isConfigured EMAIL_CONFIG
   \<and> sent (handleSubmit EMAIL_CONFIG no_inherited offline_form) = []
   \<and> \<not> isConfigured placeholder_config
   \<and> error_display
        (handleSubmit placeholder_config no_inherited
           (ContactForm_setup placeholder_config blank_form)) = ''none''"
proof -
  have r: "read_form (filled_form\<lparr>emailjs_loaded := False\<rparr>) = read_form filled_form"
    by (simp add: read_form_def field_value_def)
  have v: "isValid (validateForm (read_form offline_form))"
    by (simp add: offline_form_def setup_frame r filled_form_valid)
  have i: "\<not> initialized offline_form"
    by (simp add: offline_form_def initialized_setup filled_form_def blank_form_def)
  have s: "sent offline_form = []"
    by (simp add: offline_form_def setup_frame filled_form_def blank_form_def)
  have a: "sent (handleSubmit EMAIL_CONFIG no_inherited offline_form) = []"
    by (simp add: sent_handleSubmit i s)
  have b: "error_display
        (handleSubmit placeholder_config no_inherited
           (ContactForm_setup placeholder_config blank_form)) = ''none''"
    by (simp add: error_display_invalid setup_frame blank_form_invalid)
       (simp add: blank_form_def)
  from v a b EMAIL_CONFIG_configured placeholder_config_unconfigured show ?thesis by simp
qed

text \<open>
  C1, amended. On form submit the external send operation is called exactly once, with
  the four trimmed field values and the fixed recipient address, precisely when
  whole-form validation passes, the configuration holds no placeholder and the email
  service was initialised; setup initialises it exactly when the library is loaded, the
  configuration holds no placeholder and the library's \<^verbatim>\<open>init\<close> does not throw. If one
  of the three identifiers equals its placeholder, the send operation is not called, and
  the configuration-error banner is shown when validation passes. When validation fails,
  the send operation is not called and the error banner is left as it was.
\<close>

theorem handleSubmit_send:
  "sent (handleSubmit cfg proto st)
     = (if isValid (validateForm (read_form st)) \<and> isConfigured cfg \<and> initialized st
        then sent st @
             [(serviceID cfg, templateID cfg,
               \<lparr>from_name = field_value st Name, from_email = field_value st Email,
                tp_subject = field_value st Subject, tp_message = field_value st Message,
                to_email = ''contact@endev.us''\<rparr>)]
        else sent st)
   \<and> (\<forall>n f. form_fields st n = Some f \<longrightarrow> field_value st n = trim (fvalue f))
   \<and> (\<not> initialized st0 \<longrightarrow>
        initialized (ContactForm_setup cfg st0)
        = (emailjs_loaded st0 \<and> isConfigured cfg \<and> \<not> emailjs_init_throws st0))
   \<and> (\<not> isConfigured cfg \<longrightarrow> sent (handleSubmit cfg proto st) = sent st)
   \<and> (\<not> isConfigured cfg \<and> isValid (validateForm (read_form st)) \<longrightarrow>
        error_display (handleSubmit cfg proto st) = ''block''
        \<and> error_text (handleSubmit cfg proto st)
            = ''Contact form is not configured yet. Please contact the administrator.'')
   \<and> (\<not> isValid (validateForm (read_form st)) \<longrightarrow>
        sent (handleSubmit cfg proto st) = sent st
        \<and> error_display (handleSubmit cfg proto st) = error_display st
        \<and> error_text (handleSubmit cfg proto st) = error_text st)"
  using error_banner_unconfigured [of st cfg proto] error_display_invalid [of st cfg proto]
    error_text_invalid [of st cfg proto]
  by (simp add: sent_handleSubmit initialized_setup field_value_def)

text \<open>
  After setup with the configuration of the source, submitting the filled form makes one
  call; after setup with a placeholder it makes none and shows the banner; submitting the
  blank form makes no call and leaves the error banner hidden.
\<close>

theorem handleSubmit_send_witness:
  "sent (handleSubmit EMAIL_CONFIG no_inherited (ContactForm_setup EMAIL_CONFIG filled_form))
     = [(''artesanous'', ''endev001'',
         \<lparr>from_name = ''Ada Lovelace'', from_email = ''ada@example.org'',
          tp_subject = ''Hello'', tp_message = ''A message of some length.'',
          to_email = ''contact@endev.us''\<rparr>)]
   \<and> initialized (ContactForm_setup EMAIL_CONFIG filled_form)
   \<and> \<not> isConfigured placeholder_config
   \<and> isValid (validateForm (read_form (ContactForm_setup placeholder_config filled_form)))
   \<and> sent (handleSubmit placeholder_config no_inherited
              (ContactForm_setup placeholder_config filled_form)) = []
   \<and> error_display (handleSubmit placeholder_config no_inherited
                       (ContactForm_setup placeholder_config filled_form)) = ''block''
   \<and> error_text (handleSubmit placeholder_config no_inherited
                    (ContactForm_setup placeholder_config filled_form))
       = ''Contact form is not configured yet. Please contact the administrator.''
   \<and> \<not> isValid (validateForm (read_form (ContactForm_setup EMAIL_CONFIG blank_form)))
   \<and> sent (handleSubmit EMAIL_CONFIG no_inherited (ContactForm_setup EMAIL_CONFIG blank_form))
       = []
   \<and> error_display
        (handleSubmit EMAIL_CONFIG no_inherited (ContactForm_setup EMAIL_CONFIG blank_form))
       = ''none''
   \<and> error_text
        (handleSubmit EMAIL_CONFIG no_inherited (ContactForm_setup EMAIL_CONFIG blank_form))
       = []"
proof -
  have bv: "\<not> isValid (validateForm (read_form (ContactForm_setup EMAIL_CONFIG blank_form)))"
    by (simp add: setup_frame blank_form_invalid)
  have bs: "sent (ContactForm_setup EMAIL_CONFIG blank_form) = []"
    "error_display (ContactForm_setup EMAIL_CONFIG blank_form) = ''none''"
    "error_text (ContactForm_setup EMAIL_CONFIG blank_form) = []"
    by (simp_all add: ContactForm_setup_def EmailService_init_def form_log_def Let_def
          blank_form_def)
  have fv: "field_value (ContactForm_setup c filled_form) Name = ''Ada Lovelace''"
    "field_value (ContactForm_setup c filled_form) Email = ''ada@example.org''"
    "field_value (ContactForm_setup c filled_form) Subject = ''Hello''"
    "field_value (ContactForm_setup c filled_form) Message = ''A message of some length.''"
    for c
    by (simp_all add: ContactForm_setup_def EmailService_init_def form_log_def Let_def
          field_value_def filled_form_def blank_form_def filled_def input_def trim_def
          is_space_def)
  have v: "isValid (validateForm (read_form (ContactForm_setup c filled_form)))" for c
    by (simp add: setup_frame filled_form_valid)
  have i: "initialized (ContactForm_setup EMAIL_CONFIG filled_form)"
    by (simp add: initialized_setup EMAIL_CONFIG_configured filled_form_def blank_form_def)
  have s: "sent (ContactForm_setup c filled_form) = []" for c
    by (simp add: setup_frame filled_form_def blank_form_def)
  have c: "serviceID EMAIL_CONFIG = ''artesanous''" "templateID EMAIL_CONFIG = ''endev001''"
    by (simp_all add: EMAIL_CONFIG_def)
  show ?thesis
    using handleSubmit_send
        [of EMAIL_CONFIG no_inherited "ContactForm_setup EMAIL_CONFIG filled_form" filled_form]
      handleSubmit_send
        [of placeholder_config no_inherited "ContactForm_setup placeholder_config filled_form"
            filled_form]
      handleSubmit_send
        [of EMAIL_CONFIG no_inherited "ContactForm_setup EMAIL_CONFIG blank_form" blank_form]
    by (simp add: fv v i s c bv bs EMAIL_CONFIG_configured placeholder_config_unconfigured)
qed

end
